theory Spec2Isabelle
  imports Main "HOL-Library.Sublist"
begin

section \<open>Data model of \<open>doc_workflow.py\<close>\<close>

text \<open>
  The pydantic models of the source. Python text is modelled as \<^typ>\<open>string\<close>, one
  \<^typ>\<open>char\<close> per code point below 256. \<open>max_retries\<close> is a Python \<open>int\<close>
  without any constraint in the source, hence \<^typ>\<open>int\<close> here.
\<close>

datatype OutlineSection =
  OutlineSection (title: string) (key_points: "string list") (subsections: "OutlineSection list")

record OutlineCriteria =
  meets_requirements :: bool
  missing_elements :: "string list"
  suggestions :: "string list"

record DocumentContent =
  content :: string
  sections_covered :: "string list"

record DocumentWorkflowAgent =
  messages :: "string list"
  max_retries :: int

text \<open>
  What a Generation Port call can raise; \<open>str(e)\<close> is its message. \<open>GenerationError\<close>
  stands for every instance of \<open>Exception\<close>, the failures of the port that the
  specification names. \<open>Interruption\<close> stands for a \<open>BaseException\<close> that is not an
  \<open>Exception\<close>, which an awaited call can raise as well: \<open>asyncio.CancelledError\<close>,
  \<open>KeyboardInterrupt\<close>, \<open>SystemExit\<close>.
\<close>

datatype error = GenerationError (message: string) | Interruption (message: string)

text \<open>\<open>isinstance(e, Exception)\<close>: the errors that \<open>except Exception\<close> catches.\<close>

fun is_Exception :: "error \<Rightarrow> bool" where
  "is_Exception (GenerationError m) = True"
| "is_Exception (Interruption m) = False"

section \<open>Python text rendering used by the f-strings\<close>

definition nl :: string where
  "nl = [CHR 0x0A]"

definition spaces :: "nat \<Rightarrow> string" where
  "spaces n = replicate n CHR '' ''"

text \<open>\<open>sep.join(xs)\<close>\<close>

fun join :: "string \<Rightarrow> string list \<Rightarrow> string" where
  "join sep [] = []"
| "join sep [x] = x"
| "join sep (x # y # ys) = x @ sep @ join sep (y # ys)"

text \<open>\<open>str(n)\<close> for an \<open>int\<close>: decimal digits, with a leading minus sign below zero.\<close>

fun digits :: "nat \<Rightarrow> string" where
  "digits n = (if n < 10 then [char_of (48 + n)] else digits (n div 10) @ [char_of (48 + n mod 10)])"

definition py_str_int :: "int \<Rightarrow> string" where
  "py_str_int i = (if i < 0 then CHR ''-'' # digits (nat (- i)) else digits (nat i))"

text \<open>
  \<open>repr(s)\<close> for a \<open>str\<close>: single quotes unless the text has a single quote and no
  double quote; the quote and the backslash are escaped with a backslash; tab, newline
  and carriage return as \<open>\t\<close>, \<open>\n\<close>, \<open>\r\<close>; every other non-printable code
  point below 256 (controls, 0x7F to 0xA0, 0xAD) as \<open>\xhh\<close> in lower-case hexadecimal.
\<close>

definition hex_digit :: "nat \<Rightarrow> char" where
  "hex_digit n = ''0123456789abcdef'' ! n"

definition hex_escape :: "char \<Rightarrow> string" where
  "hex_escape c = [CHR 0x5C, CHR ''x'', hex_digit (of_char c div 16), hex_digit (of_char c mod 16)]"

definition py_repr_char :: "char \<Rightarrow> char \<Rightarrow> string" where
  "py_repr_char q c =
     (let n = (of_char c :: nat) in
      if c = q \<or> c = CHR 0x5C then [CHR 0x5C, c]
      else if c = CHR 0x09 then [CHR 0x5C, CHR ''t'']
      else if c = CHR 0x0A then [CHR 0x5C, CHR ''n'']
      else if c = CHR 0x0D then [CHR 0x5C, CHR ''r'']
      else if n < 32 \<or> n = 127 then hex_escape c
      else if n < 127 then [c]
      else if n \<le> 160 \<or> n = 173 then hex_escape c
      else [c])"

definition py_repr_str :: "string \<Rightarrow> string" where
  "py_repr_str s =
     (let q = (if CHR 0x27 \<in> set s \<and> CHR 0x22 \<notin> set s then CHR 0x22 else CHR 0x27)
      in q # concat (map (py_repr_char q) s) @ [q])"

text \<open>\<open>str(xs)\<close> for a list: the \<open>repr\<close> of each element, comma-separated, in brackets.\<close>

definition py_list :: "string list \<Rightarrow> string" where
  "py_list rs = ''['' @ join '', '' rs @ '']''"

definition py_str_list :: "string list \<Rightarrow> string" where
  "py_str_list xs = py_list (map py_repr_str xs)"

definition py_str_bool :: "bool \<Rightarrow> string" where
  "py_str_bool b = (if b then ''True'' else ''False'')"

text \<open>pydantic's \<open>repr\<close> of a model: the class name and \<open>field=repr(value)\<close>, comma-separated.\<close>

fun repr_OutlineSection :: "OutlineSection \<Rightarrow> string" where
  "repr_OutlineSection (OutlineSection t kp subs) =
     ''OutlineSection(title='' @ py_repr_str t @ '', key_points='' @ py_str_list kp
       @ '', subsections='' @ py_list (map repr_OutlineSection subs) @ '')''"

text \<open>\<open>f"{outline}"\<close>, where \<open>outline\<close> is a list of sections or \<open>None\<close>.\<close>

definition str_outline :: "OutlineSection list option \<Rightarrow> string" where
  "str_outline outline =
     (case outline of None \<Rightarrow> ''None'' | Some secs \<Rightarrow> py_list (map repr_OutlineSection secs))"

text \<open>pydantic's \<open>str\<close> of a model: \<open>field=repr(value)\<close>, space-separated.\<close>

definition str_OutlineCriteria :: "OutlineCriteria \<Rightarrow> string" where
  "str_OutlineCriteria v =
     ''meets_requirements='' @ py_str_bool (meets_requirements v)
       @ '' missing_elements='' @ py_str_list (missing_elements v)
       @ '' suggestions='' @ py_str_list (suggestions v)"

section \<open>The Generation Port\<close>

text \<open>
  The three decorated methods send the prompt text their body builds to the language
  model and return the parsed \<open>response_model\<close> instance, or raise. The model behind
  them is a parameter: a port with a state of its own, which answers each prompt with
  an error or a value of the call's schema and moves to a next state.
\<close>

record 's port =
  outline_call :: "string \<Rightarrow> 's \<Rightarrow> (error + OutlineSection list) \<times> 's"
  criteria_call :: "string \<Rightarrow> 's \<Rightarrow> (error + OutlineCriteria) \<times> 's"
  document_call :: "string \<Rightarrow> 's \<Rightarrow> (error + DocumentContent) \<times> 's"

text \<open>The body of \<open>create_outline\<close>: the prompt, with the feedback clause when \<open>feedback\<close> is truthy.\<close>

definition create_outline_prompt :: "string \<Rightarrow> string \<Rightarrow> string \<Rightarrow> string" where
  "create_outline_prompt topic requirements feedback =
     (let prompt = ''Create a structured document outline for: '' @ topic @ nl
                   @ spaces 20 @ ''Requirements: '' @ requirements @ nl
                   @ spaces 20
      in if feedback \<noteq> [] then prompt @ nl @ ''Previous feedback to address: '' @ feedback
         else prompt)"

definition validate_outline_prompt :: "OutlineSection list \<Rightarrow> string \<Rightarrow> string" where
  "validate_outline_prompt outline criteria =
     ''Evaluate this outline against the following criteria:'' @ nl
     @ spaces 18 @ criteria @ nl
     @ spaces 18 @ nl
     @ spaces 18 @ ''Outline to evaluate:'' @ nl
     @ spaces 18 @ str_outline (Some outline) @ spaces 2 @ nl
     @ spaces 16"

text \<open>
  The body of \<open>generate_document\<close>. \<open>validation and validation.suggestions\<close> is truthy
  when the verdict is not \<open>None\<close> and its list of suggestions is not empty; the loop
  appends \<open>- suggestion\<close> for each one, with nothing between them.
\<close>

definition generate_document_prompt ::
  "OutlineSection list option \<Rightarrow> OutlineCriteria option \<Rightarrow> string" where
  "generate_document_prompt outline validation =
     (let prompt = ''Write a complete document following this outline:'' @ nl
                   @ spaces 18 @ str_outline outline @ nl
                   @ spaces 18 @ nl
                   @ spaces 18 @ ''Ensure each section addresses all key points listed.''
      in case validation of
           None \<Rightarrow> prompt
         | Some v \<Rightarrow>
             if suggestions v \<noteq> [] then
               foldl (\<lambda>prompt suggestion. prompt @ ''- '' @ suggestion)
                 (prompt @ nl @ ''Please incorporate these suggestions:'' @ nl) (suggestions v)
             else prompt)"

definition create_outline ::
  "'s port \<Rightarrow> string \<Rightarrow> string \<Rightarrow> string \<Rightarrow> 's \<Rightarrow> (error + OutlineSection list) \<times> 's" where
  "create_outline p topic requirements feedback s =
     outline_call p (create_outline_prompt topic requirements feedback) s"

definition validate_outline ::
  "'s port \<Rightarrow> OutlineSection list \<Rightarrow> string \<Rightarrow> 's \<Rightarrow> (error + OutlineCriteria) \<times> 's" where
  "validate_outline p outline criteria s =
     criteria_call p (validate_outline_prompt outline criteria) s"

definition generate_document ::
  "'s port \<Rightarrow> OutlineSection list option \<Rightarrow> OutlineCriteria option \<Rightarrow> 's
     \<Rightarrow> (error + DocumentContent) \<times> 's" where
  "generate_document p outline validation s =
     document_call p (generate_document_prompt outline validation) s"

section \<open>What a run does: notices and port calls\<close>

text \<open>
  A run is observed through the texts it prints and the port calls it makes, each
  with its arguments and with what the port answered.
\<close>

datatype call =
  CreateOutline string string string
| ValidateOutline "OutlineSection list" string
| GenerateDocument "OutlineSection list option" "OutlineCriteria option"

datatype reply =
  Outline "OutlineSection list"
| Verdict OutlineCriteria
| Document DocumentContent
| Raised error

datatype event = Notice string | PortCall call reply

definition outline_reply :: "error + OutlineSection list \<Rightarrow> reply" where
  "outline_reply r = (case r of Inl e \<Rightarrow> Raised e | Inr outline \<Rightarrow> Outline outline)"

definition verdict_reply :: "error + OutlineCriteria \<Rightarrow> reply" where
  "verdict_reply r = (case r of Inl e \<Rightarrow> Raised e | Inr v \<Rightarrow> Verdict v)"

definition document_reply :: "error + DocumentContent \<Rightarrow> reply" where
  "document_reply r = (case r of Inl e \<Rightarrow> Raised e | Inr d \<Rightarrow> Document d)"

type_synonym 's outcome = "(error + string) \<times> event list \<times> 's"

definition after :: "event list \<Rightarrow> 's outcome \<Rightarrow> 's outcome" where
  "after evs out = (case out of (r, evs', s) \<Rightarrow> (r, evs @ evs', s))"

section \<open>The workflow: \<open>DocumentWorkflowAgent.run\<close>\<close>

text \<open>Step 3 of \<open>run\<close>, the code after the loop: one document call, whose content is returned.\<close>

definition generate_step ::
  "'s port \<Rightarrow> OutlineSection list option \<Rightarrow> OutlineCriteria option \<Rightarrow> 's \<Rightarrow> 's outcome" where
  "generate_step p outline validation s =
     (let (r, s') = generate_document p outline validation s;
          evs = [Notice (nl @ ''Generating final document...''),
                 PortCall (GenerateDocument outline validation) (document_reply r)]
      in case r of
           Inl e \<Rightarrow> (Inl e, evs, s')
         | Inr document \<Rightarrow> (Inr (content document), evs, s'))"

text \<open>\<open>f"{validation.missing_elements}\n{validation.suggestions}" if validation else ""\<close>\<close>

definition feedback_text :: "OutlineCriteria option \<Rightarrow> string" where
  "feedback_text validation =
     (case validation of
        None \<Rightarrow> []
      | Some v \<Rightarrow> py_str_list (missing_elements v) @ nl @ py_str_list (suggestions v))"

text \<open>
  The \<open>while\<close> loop from the state \<open>(attempt, outline, validation)\<close>, followed by step 3
  when the loop ends by \<open>break\<close> or by its condition. A raised error and the early
  \<open>return\<close> leave at once.
\<close>

function run_loop ::
  "'s port \<Rightarrow> DocumentWorkflowAgent \<Rightarrow> string \<Rightarrow> string \<Rightarrow> string \<Rightarrow> int
     \<Rightarrow> OutlineSection list option \<Rightarrow> OutlineCriteria option \<Rightarrow> 's \<Rightarrow> 's outcome" where
  "run_loop p self topic requirements criteria attempt outline validation s =
     (if attempt < max_retries self then
        (let feedback = feedback_text validation;
             (r1, s1) = create_outline p topic requirements feedback s;
             evs1 = [Notice (nl @ ''Attempt '' @ py_str_int (attempt + 1) @ '': ''
                             @ (if attempt = 0 then ''Creating'' else ''Revising'')
                             @ '' outline...''),
                     PortCall (CreateOutline topic requirements feedback) (outline_reply r1)]
         in case r1 of
              Inl e \<Rightarrow> (Inl e, evs1, s1)
            | Inr outline' \<Rightarrow>
                (let (r2, s2) = validate_outline p outline' criteria s1;
                     evs2 = evs1 @
                       [Notice ((if attempt = 0 then ''Initial'' else ''Revised'')
                                @ '' outline created: '' @ str_outline (Some outline')),
                        Notice ''Validating outline...'',
                        PortCall (ValidateOutline outline' criteria) (verdict_reply r2)]
                 in case r2 of
                      Inl e \<Rightarrow> (Inl e, evs2, s2)
                    | Inr validation' \<Rightarrow>
                        (let evs3 = evs2 @
                               [Notice (''Validation results: '' @ str_OutlineCriteria validation')]
                         in if meets_requirements validation' then
                              after (evs3 @ [Notice (nl @ ''Outline meets all requirements!'')])
                                (generate_step p (Some outline') (Some validation') s2)
                            else if attempt + 1 = max_retries self then
                              (Inr (''Failed to create satisfactory outline. Last validation: ''
                                    @ str_OutlineCriteria validation'),
                               evs3 @ [Notice (nl @ ''Failed to create satisfactory outline after ''
                                               @ py_str_int (max_retries self) @ '' attempts'')],
                               s2)
                            else
                              after evs3
                                (run_loop p self topic requirements criteria (attempt + 1)
                                   (Some outline') (Some validation') s2))))
      else generate_step p outline validation s)"
  by pat_completeness auto
termination
  by (relation "measure (\<lambda>(p, self, topic, requirements, criteria, attempt, outline, validation, s).
                  nat (max_retries self - attempt))") auto

text \<open>
  \<open>run\<close>: the loop from \<open>attempt = 0\<close>, \<open>outline = None\<close>, \<open>validation = None\<close>, inside
  \<open>try\<close>. The handler is \<open>except Exception\<close>: it prints an error that is an
  \<open>Exception\<close> and raises it again; any other error passes it by, with nothing printed.
\<close>

definition run ::
  "'s port \<Rightarrow> DocumentWorkflowAgent \<Rightarrow> string \<Rightarrow> string \<Rightarrow> string \<Rightarrow> 's \<Rightarrow> 's outcome" where
  "run p self topic requirements criteria s =
     (case run_loop p self topic requirements criteria 0 None None s of
        (Inl e, evs, s') \<Rightarrow>
          if is_Exception e then
            (Inl e, evs @ [Notice (''Error in workflow: '' @ message e)], s')
          else (Inl e, evs, s')
      | (Inr text, evs, s') \<Rightarrow> (Inr text, evs, s'))"

declare run_loop.simps [simp del]

section \<open>Reading a run\<close>

text \<open>The port calls among the events, in order, each with the port's reply.\<close>

fun calls :: "event list \<Rightarrow> (call \<times> reply) list" where
  "calls [] = []"
| "calls (Notice text # evs) = calls evs"
| "calls (PortCall c r # evs) = (c, r) # calls evs"


fun is_draft :: "call \<times> reply \<Rightarrow> bool" where
  "is_draft (CreateOutline topic requirements feedback, r) = True"
| "is_draft (c, r) = False"

fun is_validation :: "call \<times> reply \<Rightarrow> bool" where
  "is_validation (ValidateOutline outline criteria, r) = True"
| "is_validation (c, r) = False"

fun is_generation :: "call \<times> reply \<Rightarrow> bool" where
  "is_generation (GenerateDocument outline validation, r) = True"
| "is_generation (c, r) = False"

definition drafts :: "event list \<Rightarrow> nat" where
  "drafts evs = length (filter is_draft (calls evs))"

definition validations :: "event list \<Rightarrow> nat" where
  "validations evs = length (filter is_validation (calls evs))"

definition generations :: "event list \<Rightarrow> nat" where
  "generations evs = length (filter is_generation (calls evs))"

text \<open>
  A port that answers from a script: the \<open>i\<close>-th drafting call gets \<open>outlines i\<close>, the
  \<open>i\<close>-th validation call \<open>verdicts i\<close>, the \<open>i\<close>-th document call \<open>documents i\<close>. Its
  state counts the calls of each kind made so far.
\<close>

definition scripted ::
  "(nat \<Rightarrow> error + OutlineSection list) \<Rightarrow> (nat \<Rightarrow> error + OutlineCriteria)
     \<Rightarrow> (nat \<Rightarrow> error + DocumentContent) \<Rightarrow> (nat \<times> nat \<times> nat) port" where
  "scripted outlines verdicts documents =
     \<lparr>outline_call = (\<lambda>prompt (i, j, k). (outlines i, (Suc i, j, k))),
      criteria_call = (\<lambda>prompt (i, j, k). (verdicts j, (i, Suc j, k))),
      document_call = (\<lambda>prompt (i, j, k). (documents k, (i, j, Suc k)))\<rparr>"

text \<open>What a run returns or raises, and what it prints and calls, in order.\<close>

definition result_of :: "'s outcome \<Rightarrow> error + string" where
  "result_of out = fst out"

definition events_of :: "'s outcome \<Rightarrow> event list" where
  "events_of out = fst (snd out)"

text \<open>The events of a run that are failed port calls; a quiet list of events has none.\<close>

fun failed :: "event \<Rightarrow> bool" where
  "failed (PortCall cl (Raised e)) = True"
| "failed ev = False"

definition quiet :: "event list \<Rightarrow> bool" where
  "quiet evs = (\<not> list_ex failed evs)"

section \<open>The pieces of one attempt\<close>

text \<open>
  Names for the events that one pass of the loop body adds, as written in \<open>run_loop\<close>:
  the notice and the drafting call; the two notices and the validation call; the notice
  of the verdict. \<open>failure_text\<close> is the text of the early \<open>return\<close>.
\<close>

definition draft_events ::
  "string \<Rightarrow> string \<Rightarrow> int \<Rightarrow> OutlineCriteria option \<Rightarrow> error + OutlineSection list
     \<Rightarrow> event list" where
  "draft_events t r a v r1 =
     [Notice (nl @ ''Attempt '' @ py_str_int (a + 1) @ '': ''
              @ (if a = 0 then ''Creating'' else ''Revising'') @ '' outline...''),
      PortCall (CreateOutline t r (feedback_text v)) (outline_reply r1)]"

definition validate_events ::
  "string \<Rightarrow> int \<Rightarrow> OutlineSection list \<Rightarrow> error + OutlineCriteria \<Rightarrow> event list" where
  "validate_events c a ol r2 =
     [Notice ((if a = 0 then ''Initial'' else ''Revised'') @ '' outline created: ''
              @ str_outline (Some ol)),
      Notice ''Validating outline...'',
      PortCall (ValidateOutline ol c) (verdict_reply r2)]"

definition verdict_notice :: "OutlineCriteria \<Rightarrow> event" where
  "verdict_notice v = Notice (''Validation results: '' @ str_OutlineCriteria v)"

definition failure_text :: "OutlineCriteria \<Rightarrow> string" where
  "failure_text v =
     ''Failed to create satisfactory outline. Last validation: '' @ str_OutlineCriteria v"

section \<open>The order of port calls\<close>

text \<open>
  Which port call may come directly after which, for the topic, requirements and criteria
  of the run: a validation after a drafting call that returned an outline, of that
  outline; a drafting call after a validation that returned a rejecting verdict, with
  the feedback of that verdict; a document generation after a validation that returned
  an accepting verdict, with its outline and that verdict. Nothing comes after a
  failed call or after a document generation.
\<close>

fun follows ::
  "string \<Rightarrow> string \<Rightarrow> string \<Rightarrow> call \<times> reply \<Rightarrow> call \<times> reply \<Rightarrow> bool" where
  "follows t r c (CreateOutline t1 r1 fb, Outline ol) (ValidateOutline ol' c', rep) =
     (ol' = ol \<and> c' = c)"
| "follows t r c (ValidateOutline ol c1, Verdict v) (CreateOutline t' r' fb, rep) =
     (\<not> meets_requirements v \<and> t' = t \<and> r' = r \<and> fb = feedback_text (Some v))"
| "follows t r c (ValidateOutline ol c1, Verdict v) (GenerateDocument ol' v', rep) =
     (meets_requirements v \<and> ol' = Some ol \<and> v' = Some v)"
| "follows t r c x y = False"

text \<open>
  How a loop run ends: with an error exactly when its last event is the port call that
  raised it, no call before having failed; otherwise without any failed call.
\<close>

definition ends_well :: "'s outcome \<Rightarrow> bool" where
  "ends_well out =
     (case result_of out of
        Inl e \<Rightarrow> (\<exists>pre cl. events_of out = pre @ [PortCall cl (Raised e)] \<and> quiet pre)
      | Inr text \<Rightarrow> quiet (events_of out))"

section \<open>Feedback as a join of the elements\<close>

text \<open>
  The feedback text in the words of the specification's claim, for comparison with
  \<open>feedback_text\<close>: the elements of \<open>missing_elements\<close> and of \<open>suggestions\<close>, joined
  with newlines.
\<close>

definition joined_feedback :: "OutlineCriteria \<Rightarrow> string" where
  "joined_feedback v = join nl (missing_elements v @ suggestions v)"

section \<open>A concrete scenario\<close>

text \<open>
  The example of the specification: the first outline is rejected for missing examples,
  the second one is accepted. Beside it, a port whose verdicts all reject, a port
  whose validation calls all fail with a \<open>GenerationError\<close>, and a port whose
  validation calls are all cancelled.
\<close>

definition example_outline0 :: "OutlineSection list" where
  "example_outline0 = [OutlineSection ''Intro'' [''scope''] []]"

definition example_outline1 :: "OutlineSection list" where
  "example_outline1 =
     [OutlineSection ''Intro'' [''scope''] [OutlineSection ''Terms'' [''glossary''] []],
      OutlineSection ''Cases'' [''case study''] []]"

definition example_reject :: OutlineCriteria where
  "example_reject =
     \<lparr>meets_requirements = False, missing_elements = [''examples''],
      suggestions = [''add case study'']\<rparr>"

definition example_accept :: OutlineCriteria where
  "example_accept =
     \<lparr>meets_requirements = True, missing_elements = [], suggestions = [''cite sources'']\<rparr>"

definition example_document :: DocumentContent where
  "example_document = \<lparr>content = ''The document.'', sections_covered = [''Intro'', ''Cases'']\<rparr>"

definition example_outlines :: "nat \<Rightarrow> error + OutlineSection list" where
  "example_outlines i = Inr (if i = 0 then example_outline0 else example_outline1)"

definition example_verdicts :: "nat \<Rightarrow> error + OutlineCriteria" where
  "example_verdicts i = Inr (if i = 0 then example_reject else example_accept)"

definition example_rejections :: "nat \<Rightarrow> error + OutlineCriteria" where
  "example_rejections i = Inr example_reject"

definition example_documents :: "nat \<Rightarrow> error + DocumentContent" where
  "example_documents i = Inr example_document"

definition example_port :: "(nat \<times> nat \<times> nat) port" where
  "example_port = scripted example_outlines example_verdicts example_documents"

definition rejecting_port :: "(nat \<times> nat \<times> nat) port" where
  "rejecting_port = scripted example_outlines example_rejections example_documents"

definition failing_port :: "(nat \<times> nat \<times> nat) port" where
  "failing_port =
     scripted example_outlines (\<lambda>i. Inl (GenerationError ''timeout'')) example_documents"

definition interrupted_port :: "(nat \<times> nat \<times> nat) port" where
  "interrupted_port =
     scripted example_outlines (\<lambda>i. Inl (Interruption ''cancelled'')) example_documents"

definition example_agent :: "int \<Rightarrow> DocumentWorkflowAgent" where
  "example_agent n = \<lparr>messages = [], max_retries = n\<rparr>"

section \<open>The loop, one pass at a time\<close>

text \<open>
  The equation of \<open>run_loop\<close> split by what the port answers in one pass, and the
  induction and case rules that follow the six ways a pass can go.
\<close>

lemma calls_append: "calls (xs @ ys) = calls xs @ calls ys"
  by (induction xs rule: calls.induct) auto

lemma run_loop_done:
  "\<not> a < max_retries self \<Longrightarrow> run_loop p self t r c a ol v s = generate_step p ol v s"
  by (subst run_loop.simps) simp

lemma run_loop_draft_fail:
  "a < max_retries self \<Longrightarrow> create_outline p t r (feedback_text v) s = (Inl e, s1) \<Longrightarrow>
   run_loop p self t r c a ol v s = (Inl e, draft_events t r a v (Inl e), s1)"
  by (subst run_loop.simps) (simp add: draft_events_def)

lemma run_loop_validate_fail:
  "a < max_retries self \<Longrightarrow> create_outline p t r (feedback_text v) s = (Inr ol', s1) \<Longrightarrow>
   validate_outline p ol' c s1 = (Inl e, s2) \<Longrightarrow>
   run_loop p self t r c a ol v s =
     (Inl e, draft_events t r a v (Inr ol') @ validate_events c a ol' (Inl e), s2)"
  by (subst run_loop.simps) (simp add: draft_events_def validate_events_def)

lemma run_loop_accept:
  "a < max_retries self \<Longrightarrow> create_outline p t r (feedback_text v) s = (Inr ol', s1) \<Longrightarrow>
   validate_outline p ol' c s1 = (Inr v', s2) \<Longrightarrow> meets_requirements v' \<Longrightarrow>
   run_loop p self t r c a ol v s =
     after (draft_events t r a v (Inr ol') @ validate_events c a ol' (Inr v')
            @ [verdict_notice v', Notice (nl @ ''Outline meets all requirements!'')])
       (generate_step p (Some ol') (Some v') s2)"
  by (subst run_loop.simps) (simp add: draft_events_def validate_events_def verdict_notice_def)

lemma run_loop_exhausted:
  "a < max_retries self \<Longrightarrow> create_outline p t r (feedback_text v) s = (Inr ol', s1) \<Longrightarrow>
   validate_outline p ol' c s1 = (Inr v', s2) \<Longrightarrow> \<not> meets_requirements v' \<Longrightarrow>
   a + 1 = max_retries self \<Longrightarrow>
   run_loop p self t r c a ol v s =
     (Inr (failure_text v'),
      draft_events t r a v (Inr ol') @ validate_events c a ol' (Inr v')
        @ [verdict_notice v',
           Notice (nl @ ''Failed to create satisfactory outline after ''
                   @ py_str_int (max_retries self) @ '' attempts'')],
      s2)"
  by (subst run_loop.simps)
     (simp add: draft_events_def validate_events_def verdict_notice_def failure_text_def)

lemma run_loop_retry:
  "a < max_retries self \<Longrightarrow> create_outline p t r (feedback_text v) s = (Inr ol', s1) \<Longrightarrow>
   validate_outline p ol' c s1 = (Inr v', s2) \<Longrightarrow> \<not> meets_requirements v' \<Longrightarrow>
   a + 1 \<noteq> max_retries self \<Longrightarrow>
   run_loop p self t r c a ol v s =
     after (draft_events t r a v (Inr ol') @ validate_events c a ol' (Inr v') @ [verdict_notice v'])
       (run_loop p self t r c (a + 1) (Some ol') (Some v') s2)"
  by (subst run_loop.simps) (simp add: draft_events_def validate_events_def verdict_notice_def)

lemma run_loop_outcome_induct [case_names no_attempt draft_fail validate_fail accept exhausted retry]:
  assumes "\<And>a ol v s. \<not> a < max_retries self \<Longrightarrow> P a ol v s (generate_step p ol v s)"
    and "\<And>a ol v s e s1. a < max_retries self \<Longrightarrow>
           create_outline p t r (feedback_text v) s = (Inl e, s1) \<Longrightarrow>
           P a ol v s (Inl e, draft_events t r a v (Inl e), s1)"
    and "\<And>a ol v s ol' s1 e s2. a < max_retries self \<Longrightarrow>
           create_outline p t r (feedback_text v) s = (Inr ol', s1) \<Longrightarrow>
           validate_outline p ol' c s1 = (Inl e, s2) \<Longrightarrow>
           P a ol v s (Inl e, draft_events t r a v (Inr ol') @ validate_events c a ol' (Inl e), s2)"
    and "\<And>a ol v s ol' s1 v' s2. a < max_retries self \<Longrightarrow>
           create_outline p t r (feedback_text v) s = (Inr ol', s1) \<Longrightarrow>
           validate_outline p ol' c s1 = (Inr v', s2) \<Longrightarrow> meets_requirements v' \<Longrightarrow>
           P a ol v s
             (after (draft_events t r a v (Inr ol') @ validate_events c a ol' (Inr v')
                     @ [verdict_notice v', Notice (nl @ ''Outline meets all requirements!'')])
                (generate_step p (Some ol') (Some v') s2))"
    and "\<And>a ol v s ol' s1 v' s2. a < max_retries self \<Longrightarrow>
           create_outline p t r (feedback_text v) s = (Inr ol', s1) \<Longrightarrow>
           validate_outline p ol' c s1 = (Inr v', s2) \<Longrightarrow> \<not> meets_requirements v' \<Longrightarrow>
           a + 1 = max_retries self \<Longrightarrow>
           P a ol v s
             (Inr (failure_text v'),
              draft_events t r a v (Inr ol') @ validate_events c a ol' (Inr v')
                @ [verdict_notice v',
                   Notice (nl @ ''Failed to create satisfactory outline after ''
                           @ py_str_int (max_retries self) @ '' attempts'')],
              s2)"
    and "\<And>a ol v s ol' s1 v' s2. a < max_retries self \<Longrightarrow>
           create_outline p t r (feedback_text v) s = (Inr ol', s1) \<Longrightarrow>
           validate_outline p ol' c s1 = (Inr v', s2) \<Longrightarrow> \<not> meets_requirements v' \<Longrightarrow>
           a + 1 < max_retries self \<Longrightarrow>
           P (a + 1) (Some ol') (Some v') s2
             (run_loop p self t r c (a + 1) (Some ol') (Some v') s2) \<Longrightarrow>
           P a ol v s
             (after (draft_events t r a v (Inr ol') @ validate_events c a ol' (Inr v')
                     @ [verdict_notice v'])
                (run_loop p self t r c (a + 1) (Some ol') (Some v') s2))"
  shows "P a ol v s (run_loop p self t r c a ol v s)"
proof (induction "nat (max_retries self - a)" arbitrary: a ol v s rule: less_induct)
  case less
  show ?case
  proof (cases "a < max_retries self")
    case False
    then show ?thesis using assms(1) by (simp add: run_loop_done)
  next
    case lt: True
    obtain r1 s1 where c1: "create_outline p t r (feedback_text v) s = (r1, s1)" by force
    show ?thesis
    proof (cases r1)
      case (Inl e)
      with lt c1 assms(2) show ?thesis by (simp add: run_loop_draft_fail)
    next
      case (Inr ol')
      obtain r2 s2 where c2: "validate_outline p ol' c s1 = (r2, s2)" by force
      show ?thesis
      proof (cases r2)
        case (Inl e)
        with lt c1 c2 Inr assms(3) show ?thesis by (simp add: run_loop_validate_fail)
      next
        case vr: (Inr v')
        show ?thesis
        proof (cases "meets_requirements v'")
          case True
          with lt c1 c2 Inr vr assms(4) show ?thesis by (simp add: run_loop_accept)
        next
          case nm: False
          show ?thesis
          proof (cases "a + 1 = max_retries self")
            case True
            with nm lt c1 c2 Inr vr assms(5) show ?thesis by (simp add: run_loop_exhausted)
          next
            case ne: False
            with lt have lt': "a + 1 < max_retries self" by simp
            have "nat (max_retries self - (a + 1)) < nat (max_retries self - a)"
              using lt by simp
            then have "P (a + 1) (Some ol') (Some v') s2
                         (run_loop p self t r c (a + 1) (Some ol') (Some v') s2)"
              by (rule less)
            with nm ne lt lt' c1 c2 Inr vr assms(6) show ?thesis
              by (simp add: run_loop_retry)
          qed
        qed
      qed
    qed
  qed
qed


section \<open>Events and results of the pieces\<close>

lemma events_of_triple: "events_of (res, evs, s) = evs"
  by (simp add: events_of_def)

lemma result_of_triple: "result_of (res, evs, s) = res"
  by (simp add: result_of_def)

lemma events_after: "events_of (after evs out) = evs @ events_of out"
  by (cases out) (simp add: after_def events_of_def)

lemma result_after: "result_of (after evs out) = result_of out"
  by (cases out) (simp add: after_def result_of_def)

lemma calls_draft_events:
  "calls (draft_events t r a v r1) = [(CreateOutline t r (feedback_text v), outline_reply r1)]"
  by (simp add: draft_events_def)

lemma calls_validate_events:
  "calls (validate_events c a ol r2) = [(ValidateOutline ol c, verdict_reply r2)]"
  by (simp add: validate_events_def)

lemma calls_verdict_notice: "calls (verdict_notice v # evs) = calls evs"
  by (simp add: verdict_notice_def)

lemma events_generate_step:
  "events_of (generate_step p ol v s) =
     [Notice (nl @ ''Generating final document...''),
      PortCall (GenerateDocument ol v) (document_reply (fst (generate_document p ol v s)))]"
  by (simp add: generate_step_def events_of_def Let_def split: prod.splits sum.splits)

lemma result_generate_step:
  "result_of (generate_step p ol v s) =
     (case fst (generate_document p ol v s) of Inl e \<Rightarrow> Inl e | Inr d \<Rightarrow> Inr (content d))"
  by (simp add: generate_step_def result_of_def Let_def split: prod.splits sum.splits)

lemmas calls_simps = events_of_triple result_of_triple calls_append events_after calls_draft_events calls_validate_events
  calls_verdict_notice events_generate_step

section \<open>Every run follows the order of port calls\<close>

lemma loop_calls_head:
  "\<exists>r0 rest. calls (events_of (run_loop p self t r c a ol v s)) =
      ((if a < max_retries self then CreateOutline t r (feedback_text v)
        else GenerateDocument ol v), r0) # rest"
  by (rule run_loop_outcome_induct [where P = "\<lambda>a ol v s out. \<exists>r0 rest. calls (events_of out) =
      ((if a < max_retries self then CreateOutline t r (feedback_text v)
        else GenerateDocument ol v), r0) # rest"])
     (simp_all add: calls_simps)

lemma loop_calls_order:
  "successively (follows t r c) (calls (events_of (run_loop p self t r c a ol v s)))"
proof (rule run_loop_outcome_induct [where P = "\<lambda>a ol v s out.
         successively (follows t r c) (calls (events_of out))"])
  fix a ol v s ol' s1 v' s2
  assume "a + 1 < max_retries self" "\<not> meets_requirements v'"
    and ih: "successively (follows t r c)
               (calls (events_of (run_loop p self t r c (a + 1) (Some ol') (Some v') s2)))"
  moreover obtain r0 rest where
    "calls (events_of (run_loop p self t r c (a + 1) (Some ol') (Some v') s2)) =
       ((if a + 1 < max_retries self then CreateOutline t r (feedback_text (Some v'))
         else GenerateDocument (Some ol') (Some v')), r0) # rest"
    using loop_calls_head [of p self t r c "a + 1" "Some ol'" "Some v'" s2] by (elim exE)
  ultimately show "successively (follows t r c)
      (calls (events_of (after (draft_events t r a v (Inr ol') @ validate_events c a ol' (Inr v')
                     @ [verdict_notice v'])
                (run_loop p self t r c (a + 1) (Some ol') (Some v') s2))))"
    by (simp add: calls_simps outline_reply_def verdict_reply_def)
qed (simp_all add: calls_simps outline_reply_def verdict_reply_def)

lemma calls_run:
  "calls (events_of (run p self t r c s)) = calls (events_of (run_loop p self t r c 0 None None s))"
  by (cases "run_loop p self t r c 0 None None s")
     (auto simp: run_def calls_simps split: sum.splits)

lemma result_run:
  "result_of (run p self t r c s) = result_of (run_loop p self t r c 0 None None s)"
  by (cases "run_loop p self t r c 0 None None s")
     (auto simp: run_def calls_simps split: sum.splits)

lemma events_run:
  "events_of (run p self t r c s) =
     events_of (run_loop p self t r c 0 None None s)
     @ (case result_of (run_loop p self t r c 0 None None s) of
          Inl e \<Rightarrow>
            if is_Exception e then [Notice (''Error in workflow: '' @ message e)] else []
        | Inr text \<Rightarrow> [])"
  by (cases "run_loop p self t r c 0 None None s")
     (auto simp: run_def calls_simps split: sum.splits)

lemma successively_nth:
  "successively P xs \<Longrightarrow> Suc i < length xs \<Longrightarrow> P (xs ! i) (xs ! Suc i)"
proof (induction xs arbitrary: i)
  case Nil
  then show ?case by simp
next
  case (Cons x xs)
  then show ?case
    by (cases i; cases xs) (auto simp: successively_Cons)
qed

lemma terminal_once:
  "successively P xs \<Longrightarrow> (\<And>x y. Q x \<Longrightarrow> \<not> P x y) \<Longrightarrow> length (filter Q xs) \<le> 1"
proof (induction xs)
  case Nil
  then show ?case by simp
next
  case (Cons x xs)
  then show ?case
    by (cases xs) (auto simp: successively_Cons)
qed

lemma follows_generation:
  "follows t r c x (GenerateDocument ol' v', rep) \<Longrightarrow>
     \<exists>ol crit v. x = (ValidateOutline ol crit, Verdict v) \<and> meets_requirements v
        \<and> ol' = Some ol \<and> v' = Some v"
  by (cases "(t, r, c, x, (GenerateDocument ol' v', rep))" rule: follows.cases) auto

lemma follows_draft:
  "follows t r c x (CreateOutline t' r' fb, rep) \<Longrightarrow>
     \<exists>ol crit v. x = (ValidateOutline ol crit, Verdict v) \<and> \<not> meets_requirements v
        \<and> t' = t \<and> r' = r \<and> fb = feedback_text (Some v)"
  by (cases "(t, r, c, x, (CreateOutline t' r' fb, rep))" rule: follows.cases) auto

lemma follows_validation:
  "follows t r c x (ValidateOutline ol crit, rep) \<Longrightarrow>
     \<exists>t' r' fb. x = (CreateOutline t' r' fb, Outline ol) \<and> crit = c"
  by (cases "(t, r, c, x, (ValidateOutline ol crit, rep))" rule: follows.cases) auto

lemma follows_generation_last: "is_generation x \<Longrightarrow> \<not> follows t r c x y"
  by (cases "(t, r, c, x, y)" rule: follows.cases) auto

lemma run_calls_order:
  "successively (follows t r c) (calls (events_of (run p self t r c s)))"
  by (simp add: calls_run loop_calls_order)

lemma run_calls_head:
  "\<exists>r0 rest. calls (events_of (run p self t r c s)) =
      ((if 0 < max_retries self then CreateOutline t r [] else GenerateDocument None None), r0) # rest"
  using loop_calls_head [of p self t r c 0 None None s]
  by (auto simp: calls_run feedback_text_def)

lemma is_generation_iff: "is_generation x \<longleftrightarrow> (\<exists>ol v rep. x = (GenerateDocument ol v, rep))"
  by (cases x rule: is_generation.cases) auto

section \<open>The port calls of the example run\<close>

lemma example_run_calls:
  "calls (events_of (run example_port (example_agent 2) ''t'' ''r'' ''c'' (0, 0, 0))) =
     [(CreateOutline ''t'' ''r'' [], Outline example_outline0),
      (ValidateOutline example_outline0 ''c'', Verdict example_reject),
      (CreateOutline ''t'' ''r'' (''['examples']'' @ nl @ ''['add case study']''), Outline example_outline1),
      (ValidateOutline example_outline1 ''c'', Verdict example_accept),
      (GenerateDocument (Some example_outline1) (Some example_accept), Document example_document)]"
  by code_simp

section \<open>The prompts\<close>

lemma create_outline_prompt_empty:
  "create_outline_prompt t r [] =
     ''Create a structured document outline for: '' @ t @ nl @ spaces 20
       @ ''Requirements: '' @ r @ nl @ spaces 20"
  by (simp add: create_outline_prompt_def)

lemma create_outline_prompt_feedback:
  "create_outline_prompt t r (feedback_text (Some v)) =
     ''Create a structured document outline for: '' @ t @ nl @ spaces 20
       @ ''Requirements: '' @ r @ nl @ spaces 20
       @ nl @ ''Previous feedback to address: ''
       @ py_str_list (missing_elements v) @ nl @ py_str_list (suggestions v)"
  by (simp add: create_outline_prompt_def feedback_text_def nl_def)

lemma foldl_append_items:
  "foldl (\<lambda>prompt suggestion. prompt @ ''- '' @ suggestion) acc xs
     = acc @ concat (map (\<lambda>suggestion. ''- '' @ suggestion) xs)"
  by (induction xs arbitrary: acc) simp_all

lemma generate_document_prompt_Some:
  "generate_document_prompt ol (Some v) =
     ''Write a complete document following this outline:'' @ nl
     @ spaces 18 @ str_outline ol @ nl
     @ spaces 18 @ nl
     @ spaces 18 @ ''Ensure each section addresses all key points listed.''
     @ (if suggestions v = [] then []
        else nl @ ''Please incorporate these suggestions:'' @ nl
             @ concat (map (\<lambda>suggestion. ''- '' @ suggestion) (suggestions v)))"
  unfolding generate_document_prompt_def Let_def foldl_append_items by simp

lemma sublist_item:
  assumes "x \<in> set xs"
  shows "sublist (''- '' @ x) (pre @ concat (map (\<lambda>suggestion. ''- '' @ suggestion) xs))"
proof -
  from assms obtain as bs where "xs = as @ x # bs" by (auto simp: in_set_conv_decomp)
  then have "pre @ concat (map (\<lambda>suggestion. ''- '' @ suggestion) xs) =
      (pre @ concat (map (\<lambda>suggestion. ''- '' @ suggestion) as)) @ (''- '' @ x)
        @ concat (map (\<lambda>suggestion. ''- '' @ suggestion) bs)"
    by simp
  then show ?thesis unfolding sublist_def by blast
qed

section \<open>Failed calls end a run\<close>

lemma quiet_simps:
  "quiet []" "quiet (Notice text # evs) = quiet evs"
  "quiet (PortCall cl (Outline ol) # evs) = quiet evs"
  "quiet (PortCall cl (Verdict v) # evs) = quiet evs"
  "quiet (PortCall cl (Document d) # evs) = quiet evs"
  "quiet (xs @ ys) = (quiet xs \<and> quiet ys)"
  by (auto simp: quiet_def list_ex_iff)

lemma quiet_verdict_notice: "quiet (verdict_notice v # evs) = quiet evs"
  by (simp add: verdict_notice_def quiet_simps)

lemma quiet_draft_events: "quiet (draft_events t r a v (Inr ol))"
  by (simp add: draft_events_def outline_reply_def quiet_simps)

lemma quiet_validate_events: "quiet (validate_events c a ol (Inr v))"
  by (simp add: validate_events_def verdict_reply_def quiet_simps)

lemma ends_well_after: "quiet evs \<Longrightarrow> ends_well out \<Longrightarrow> ends_well (after evs out)"
  unfolding ends_well_def
  by (cases out) (auto simp: after_def calls_simps quiet_simps split: sum.splits
        intro: exI [where x = "evs @ pre" for pre])

lemma ends_well_generate_step: "ends_well (generate_step p ol v s)"
  unfolding ends_well_def
  by (auto simp: generate_step_def Let_def calls_simps quiet_simps document_reply_def
        split: prod.splits sum.splits intro: exI [where x = "[Notice n]" for n])

lemma draft_events_shape:
  "\<exists>n. draft_events t r a v r1 =
     [Notice n, PortCall (CreateOutline t r (feedback_text v)) (outline_reply r1)]"
  by (simp add: draft_events_def)

lemma validate_events_shape:
  "\<exists>n m. validate_events c a ol r2 =
     [Notice n, Notice m, PortCall (ValidateOutline ol c) (verdict_reply r2)]"
  by (simp add: validate_events_def)

lemma ends_well_loop: "ends_well (run_loop p self t r c a ol v s)"
proof (rule run_loop_outcome_induct [where P = "\<lambda>a ol v s out. ends_well out"])
  fix a v e s1
  obtain n where "draft_events t r a v (Inl e) =
     [Notice n] @ [PortCall (CreateOutline t r (feedback_text v)) (Raised e)]"
    using draft_events_shape [of t r a v "Inl e"] by (auto simp: outline_reply_def)
  moreover have "quiet [Notice n]" by (simp add: quiet_simps)
  ultimately show "ends_well (Inl e, draft_events t r a v (Inl e), s1)"
    unfolding ends_well_def by (simp only: calls_simps sum.case) blast
next
  fix a v ol' e s2
  obtain n m where "validate_events c a ol' (Inl e) =
     [Notice n, Notice m] @ [PortCall (ValidateOutline ol' c) (Raised e)]"
    using validate_events_shape [of c a ol' "Inl e"] by (auto simp: verdict_reply_def)
  then have "draft_events t r a v (Inr ol') @ validate_events c a ol' (Inl e) =
      (draft_events t r a v (Inr ol') @ [Notice n, Notice m])
        @ [PortCall (ValidateOutline ol' c) (Raised e)]"
    by simp
  moreover have "quiet (draft_events t r a v (Inr ol') @ [Notice n, Notice m])"
    by (simp add: quiet_simps quiet_draft_events)
  ultimately show "ends_well (Inl e, draft_events t r a v (Inr ol') @ validate_events c a ol' (Inl e), s2)"
    unfolding ends_well_def by (simp only: calls_simps sum.case) blast
qed (simp_all add: ends_well_after ends_well_generate_step quiet_simps quiet_draft_events
       quiet_validate_events quiet_verdict_notice,
     simp add: ends_well_def calls_simps quiet_simps quiet_draft_events
       quiet_validate_events quiet_verdict_notice)

lemma quiet_not_failed: "quiet evs \<Longrightarrow> PortCall cl (Raised e) \<notin> set evs"
  by (auto simp: quiet_def list_ex_iff)

lemma failing_run_events:
  "PortCall (ValidateOutline example_outline0 ''c'') (Raised (GenerationError ''timeout''))
     \<in> set (events_of (run failing_port (example_agent 2) ''t'' ''r'' ''c'' (0, 0, 0)))"
  by code_simp

section \<open>Runs on scripted ports\<close>

lemma scripted_create_outline:
  "create_outline (scripted outlines verdicts documents) t r fb (i, j, k) = (outlines i, (Suc i, j, k))"
  by (simp add: create_outline_def scripted_def)

lemma scripted_validate_outline:
  "validate_outline (scripted outlines verdicts documents) ol c (i, j, k) = (verdicts j, (i, Suc j, k))"
  by (simp add: validate_outline_def scripted_def)

lemma scripted_generate_document:
  "generate_document (scripted outlines verdicts documents) ol v (i, j, k) = (documents k, (i, j, Suc k))"
  by (simp add: generate_document_def scripted_def)

lemma drafts_append: "drafts (xs @ ys) = drafts xs + drafts ys"
  by (simp add: drafts_def calls_append)

lemma validations_append: "validations (xs @ ys) = validations xs + validations ys"
  by (simp add: validations_def calls_append)

lemma generations_append: "generations (xs @ ys) = generations xs + generations ys"
  by (simp add: generations_def calls_append)

lemma count_draft_events:
  "drafts (draft_events t r a v r1) = 1" "validations (draft_events t r a v r1) = 0"
  "generations (draft_events t r a v r1) = 0"
  by (simp_all add: drafts_def validations_def generations_def calls_draft_events)

lemma count_validate_events:
  "drafts (validate_events c a ol r2) = 0" "validations (validate_events c a ol r2) = 1"
  "generations (validate_events c a ol r2) = 0"
  by (simp_all add: drafts_def validations_def generations_def calls_validate_events)

lemma count_notices:
  "drafts (Notice n # evs) = drafts evs" "validations (Notice n # evs) = validations evs"
  "generations (Notice n # evs) = generations evs"
  "drafts (verdict_notice v # evs) = drafts evs" "validations (verdict_notice v # evs) = validations evs"
  "generations (verdict_notice v # evs) = generations evs"
  "drafts [] = 0" "validations [] = 0" "generations [] = 0"
  by (simp_all add: drafts_def validations_def generations_def verdict_notice_def)

lemma count_generate_step:
  "drafts (events_of (generate_step p ol v s)) = 0"
  "validations (events_of (generate_step p ol v s)) = 0"
  "generations (events_of (generate_step p ol v s)) = 1"
  by (simp_all add: drafts_def validations_def generations_def events_generate_step)

lemmas count_simps = drafts_append validations_append generations_append count_draft_events
  count_validate_events count_notices count_generate_step events_after events_of_triple
  result_after result_of_triple

lemma accept_from:
  assumes "int k < max_retries self"
    and "\<forall>i. a \<le> i \<and> i \<le> k \<longrightarrow> (\<exists>ol. outlines i = Inr ol)"
    and "\<forall>i. a \<le> i \<and> i < k \<longrightarrow> (\<exists>v. verdicts i = Inr v \<and> \<not> meets_requirements v)"
    and "verdicts k = Inr vk" and "meets_requirements vk" and "documents 0 = Inr d"
    and "a \<le> k"
  shows "result_of (run_loop (scripted outlines verdicts documents) self t r c (int a) ol v (a, a, 0))
           = Inr (content d)
    \<and> drafts (events_of (run_loop (scripted outlines verdicts documents) self t r c (int a) ol v (a, a, 0)))
           = Suc k - a
    \<and> validations (events_of (run_loop (scripted outlines verdicts documents) self t r c (int a) ol v (a, a, 0)))
           = Suc k - a
    \<and> generations (events_of (run_loop (scripted outlines verdicts documents) self t r c (int a) ol v (a, a, 0)))
           = 1"
  using assms(2,3,7)
proof (induction "k - a" arbitrary: a ol v)
  case 0
  then have ak: "a = k" by simp
  from 0 ak obtain ol' where o: "outlines k = Inr ol'" by auto
  have "run_loop (scripted outlines verdicts documents) self t r c (int k) ol v (k, k, 0) =
     after (draft_events t r (int k) v (Inr ol') @ validate_events c (int k) ol' (Inr vk)
            @ [verdict_notice vk, Notice (nl @ ''Outline meets all requirements!'')])
       (generate_step (scripted outlines verdicts documents) (Some ol') (Some vk) (Suc k, Suc k, 0))"
    using assms(1,4,5) o
    by (intro run_loop_accept [where ?s1.0 = "(Suc k, k, 0)"])
       (simp_all add: scripted_create_outline scripted_validate_outline)
  then show ?case using assms(6) ak
    by (simp add: count_simps result_generate_step scripted_generate_document)
next
  case (Suc n)
  then have lt: "a < k" by simp
  with Suc.prems obtain ol' v' where o: "outlines a = Inr ol'"
    and w: "verdicts a = Inr v'" "\<not> meets_requirements v'"
    by (metis le_refl less_imp_le)
  have step: "run_loop (scripted outlines verdicts documents) self t r c (int a) ol v (a, a, 0) =
     after (draft_events t r (int a) v (Inr ol') @ validate_events c (int a) ol' (Inr v')
            @ [verdict_notice v'])
       (run_loop (scripted outlines verdicts documents) self t r c (int a + 1) (Some ol') (Some v')
          (Suc a, Suc a, 0))"
    using assms(1) lt o w
    by (intro run_loop_retry [where ?s1.0 = "(Suc a, a, 0)"])
       (simp_all add: scripted_create_outline scripted_validate_outline)
  have "n = k - Suc a" using Suc.hyps(2) by simp
  moreover have "\<forall>i. Suc a \<le> i \<and> i \<le> k \<longrightarrow> (\<exists>ol. outlines i = Inr ol)"
    using Suc.prems(1) by auto
  moreover have "\<forall>i. Suc a \<le> i \<and> i < k \<longrightarrow> (\<exists>v. verdicts i = Inr v \<and> \<not> meets_requirements v)"
    using Suc.prems(2) by auto
  moreover have "Suc a \<le> k" using lt by simp
  ultimately have ih: "result_of (run_loop (scripted outlines verdicts documents) self t r c (int (Suc a)) (Some ol') (Some v') (Suc a, Suc a, 0))
           = Inr (content d)
    \<and> drafts (events_of (run_loop (scripted outlines verdicts documents) self t r c (int (Suc a)) (Some ol') (Some v') (Suc a, Suc a, 0)))
           = Suc k - Suc a
    \<and> validations (events_of (run_loop (scripted outlines verdicts documents) self t r c (int (Suc a)) (Some ol') (Some v') (Suc a, Suc a, 0)))
           = Suc k - Suc a
    \<and> generations (events_of (run_loop (scripted outlines verdicts documents) self t r c (int (Suc a)) (Some ol') (Some v') (Suc a, Suc a, 0)))
           = 1"
    by (rule Suc.hyps(1))
  have e: "int a + 1 = int (Suc a)" by simp
  from step [unfolded e] ih lt show ?case by (simp add: count_simps del: of_nat_Suc)
qed

lemma counts_run:
  "drafts (events_of (run p self t r c s)) = drafts (events_of (run_loop p self t r c 0 None None s))"
  "validations (events_of (run p self t r c s))
     = validations (events_of (run_loop p self t r c 0 None None s))"
  "generations (events_of (run p self t r c s))
     = generations (events_of (run_loop p self t r c 0 None None s))"
  by (simp_all add: drafts_def validations_def generations_def calls_run)

lemma exhaust_from:
  assumes "max_retries self = int n"
    and "\<forall>i. a \<le> i \<and> i < n \<longrightarrow>
           (\<exists>ol. outlines i = Inr ol) \<and> (\<exists>v. verdicts i = Inr v \<and> \<not> meets_requirements v)"
    and "a < n"
  shows "\<exists>v. verdicts (n - 1) = Inr v
    \<and> result_of (run_loop (scripted outlines verdicts documents) self t r c (int a) ol w (a, a, 0))
           = Inr (failure_text v)
    \<and> drafts (events_of (run_loop (scripted outlines verdicts documents) self t r c (int a) ol w (a, a, 0)))
           = n - a
    \<and> validations (events_of (run_loop (scripted outlines verdicts documents) self t r c (int a) ol w (a, a, 0)))
           = n - a
    \<and> generations (events_of (run_loop (scripted outlines verdicts documents) self t r c (int a) ol w (a, a, 0)))
           = 0"
  using assms(2,3)
proof (induction "n - Suc a" arbitrary: a ol w)
  case 0
  then have an: "Suc a = n" by simp
  with 0 obtain ol' v' where o: "outlines a = Inr ol'"
    and w: "verdicts a = Inr v'" "\<not> meets_requirements v'"
    by (metis le_refl)
  have "run_loop (scripted outlines verdicts documents) self t r c (int a) ol w (a, a, 0) =
     (Inr (failure_text v'),
      draft_events t r (int a) w (Inr ol') @ validate_events c (int a) ol' (Inr v')
        @ [verdict_notice v',
           Notice (nl @ ''Failed to create satisfactory outline after ''
                   @ py_str_int (max_retries self) @ '' attempts'')],
      (Suc a, Suc a, 0))"
    using assms(1) an o w
    by (intro run_loop_exhausted [where ?s1.0 = "(Suc a, a, 0)"])
       (simp_all add: scripted_create_outline scripted_validate_outline)
  moreover from an have "n - 1 = a" by simp
  ultimately show ?case using w an by (simp add: count_simps)
next
  case (Suc m)
  then have lt: "Suc a < n" by simp
  with Suc.prems obtain ol' v' where o: "outlines a = Inr ol'"
    and w: "verdicts a = Inr v'" "\<not> meets_requirements v'"
    by (metis le_refl)
  have step: "run_loop (scripted outlines verdicts documents) self t r c (int a) ol w (a, a, 0) =
     after (draft_events t r (int a) w (Inr ol') @ validate_events c (int a) ol' (Inr v')
            @ [verdict_notice v'])
       (run_loop (scripted outlines verdicts documents) self t r c (int a + 1) (Some ol') (Some v')
          (Suc a, Suc a, 0))"
    using assms(1) lt o w
    by (intro run_loop_retry [where ?s1.0 = "(Suc a, a, 0)"])
       (simp_all add: scripted_create_outline scripted_validate_outline)
  have "m = n - Suc (Suc a)" using Suc.hyps(2) by simp
  moreover have "\<forall>i. Suc a \<le> i \<and> i < n \<longrightarrow>
           (\<exists>ol. outlines i = Inr ol) \<and> (\<exists>v. verdicts i = Inr v \<and> \<not> meets_requirements v)"
    using Suc.prems(1) by auto
  ultimately have "\<exists>v. verdicts (n - 1) = Inr v
    \<and> result_of (run_loop (scripted outlines verdicts documents) self t r c (int (Suc a)) (Some ol') (Some v') (Suc a, Suc a, 0))
           = Inr (failure_text v)
    \<and> drafts (events_of (run_loop (scripted outlines verdicts documents) self t r c (int (Suc a)) (Some ol') (Some v') (Suc a, Suc a, 0)))
           = n - Suc a
    \<and> validations (events_of (run_loop (scripted outlines verdicts documents) self t r c (int (Suc a)) (Some ol') (Some v') (Suc a, Suc a, 0)))
           = n - Suc a
    \<and> generations (events_of (run_loop (scripted outlines verdicts documents) self t r c (int (Suc a)) (Some ol') (Some v') (Suc a, Suc a, 0)))
           = 0"
    using lt by (rule Suc.hyps(1))
  moreover have e: "int a + 1 = int (Suc a)" by simp
  ultimately show ?case using step [unfolded e] lt
    by (auto simp add: count_simps simp del: of_nat_Suc)
qed

lemma sublist_failure_text:
  "sublist (py_str_list (missing_elements v)) (failure_text v)"
  "sublist (py_str_list (suggestions v)) (failure_text v)"
proof -
  have "failure_text v =
      (''Failed to create satisfactory outline. Last validation: ''
        @ ''meets_requirements='' @ py_str_bool (meets_requirements v) @ '' missing_elements='')
      @ py_str_list (missing_elements v) @ ('' suggestions='' @ py_str_list (suggestions v))"
    by (simp add: failure_text_def str_OutlineCriteria_def)
  then show "sublist (py_str_list (missing_elements v)) (failure_text v)"
    unfolding sublist_def by blast
  have "failure_text v =
      (''Failed to create satisfactory outline. Last validation: ''
        @ ''meets_requirements='' @ py_str_bool (meets_requirements v) @ '' missing_elements=''
        @ py_str_list (missing_elements v) @ '' suggestions='')
      @ py_str_list (suggestions v) @ []"
    by (simp add: failure_text_def str_OutlineCriteria_def)
  then show "sublist (py_str_list (suggestions v)) (failure_text v)"
    unfolding sublist_def by blast
qed

section \<open>Runs with the same replies\<close>












section \<open>The claims of the specification\<close>

text \<open>
  Claim C1. On a port that answers from a script: if attempt \<open>k < max_retries\<close> is the
  first whose validation returns a verdict with \<open>meets_requirements\<close> true (every call
  up to it answering), then \<open>run\<close> returns the content of the document that the first
  document call returns, after exactly \<open>k + 1\<close> drafting calls, \<open>k + 1\<close> validation
  calls and one document-generation call. \<open>k = max_retries - 1\<close> is included.
\<close>

theorem acceptance_terminates:
  assumes "int k < max_retries self"
    and "\<forall>i \<le> k. \<exists>ol. outlines i = Inr ol"
    and "\<forall>i < k. \<exists>v. verdicts i = Inr v \<and> \<not> meets_requirements v"
    and "verdicts k = Inr vk" and "meets_requirements vk"
    and "documents 0 = Inr d"
  shows "result_of (run (scripted outlines verdicts documents) self t r c (0, 0, 0)) = Inr (content d)
    \<and> drafts (events_of (run (scripted outlines verdicts documents) self t r c (0, 0, 0))) = k + 1
    \<and> validations (events_of (run (scripted outlines verdicts documents) self t r c (0, 0, 0))) = k + 1
    \<and> generations (events_of (run (scripted outlines verdicts documents) self t r c (0, 0, 0))) = 1"
proof -
  have h2: "\<forall>i. 0 \<le> i \<and> i \<le> k \<longrightarrow> (\<exists>ol. outlines i = Inr ol)"
    using assms(2) by simp
  have h3: "\<forall>i. 0 \<le> i \<and> i < k \<longrightarrow> (\<exists>v. verdicts i = Inr v \<and> \<not> meets_requirements v)"
    using assms(3) by simp
  show ?thesis
    using accept_from [where a = 0 and ol = None and v = None and t = t and r = r and c = c
                         and outlines = outlines and verdicts = verdicts
                         and documents = documents and k = k and self = self,
                       OF assms(1) h2 h3 assms(4,5,6)]
    by (simp add: result_run counts_run)
qed

theorem acceptance_terminates_witness:
  "int 1 < max_retries (example_agent 2)
   \<and> result_of (run example_port (example_agent 2) ''t'' ''r'' ''c'' (0, 0, 0)) = Inr ''The document.''
   \<and> drafts (events_of (run example_port (example_agent 2) ''t'' ''r'' ''c'' (0, 0, 0))) = 2
   \<and> validations (events_of (run example_port (example_agent 2) ''t'' ''r'' ''c'' (0, 0, 0))) = 2
   \<and> generations (events_of (run example_port (example_agent 2) ''t'' ''r'' ''c'' (0, 0, 0))) = 1"
  using acceptance_terminates
          [where k = 1 and self = "example_agent 2" and outlines = example_outlines
             and verdicts = example_verdicts and documents = example_documents
             and vk = example_accept and d = example_document
             and t = "''t''" and r = "''r''" and c = "''c''"]
  by (simp add: example_port_def example_agent_def example_outlines_def example_verdicts_def
        example_documents_def example_reject_def example_accept_def example_document_def)

text \<open>
  Claim C2. On a port that answers from a script, with \<open>max_retries \<ge> 1\<close>: if every
  one of the \<open>max_retries\<close> attempts gets an outline and a verdict with
  \<open>meets_requirements\<close> false, then \<open>run\<close> makes exactly \<open>max_retries\<close> drafting calls
  and \<open>max_retries\<close> validation calls, no document-generation call, and returns the
  failure text, which ends with the text of the last verdict and so contains the text of
  its \<open>missing_elements\<close> and of its \<open>suggestions\<close>.
\<close>

theorem budget_exhaustion:
  assumes "1 \<le> max_retries self"
    and "\<forall>i. int i < max_retries self \<longrightarrow>
           (\<exists>ol. outlines i = Inr ol) \<and> (\<exists>v. verdicts i = Inr v \<and> \<not> meets_requirements v)"
  shows "\<exists>v. verdicts (nat (max_retries self) - 1) = Inr v
    \<and> result_of (run (scripted outlines verdicts documents) self t r c (0, 0, 0))
         = Inr (''Failed to create satisfactory outline. Last validation: '' @ str_OutlineCriteria v)
    \<and> sublist (py_str_list (missing_elements v))
         (''Failed to create satisfactory outline. Last validation: '' @ str_OutlineCriteria v)
    \<and> sublist (py_str_list (suggestions v))
         (''Failed to create satisfactory outline. Last validation: '' @ str_OutlineCriteria v)
    \<and> drafts (events_of (run (scripted outlines verdicts documents) self t r c (0, 0, 0)))
         = nat (max_retries self)
    \<and> validations (events_of (run (scripted outlines verdicts documents) self t r c (0, 0, 0)))
         = nat (max_retries self)
    \<and> generations (events_of (run (scripted outlines verdicts documents) self t r c (0, 0, 0))) = 0"
proof -
  let ?n = "nat (max_retries self)"
  have m: "max_retries self = int ?n" using assms(1) by simp
  have "\<forall>i. 0 \<le> i \<and> i < ?n \<longrightarrow>
           (\<exists>ol. outlines i = Inr ol) \<and> (\<exists>v. verdicts i = Inr v \<and> \<not> meets_requirements v)"
    using assms(2) by simp
  moreover have "0 < ?n" using assms(1) by simp
  ultimately obtain v where "verdicts (?n - 1) = Inr v"
    "result_of (run_loop (scripted outlines verdicts documents) self t r c (int 0) None None (0, 0, 0))
           = Inr (failure_text v)"
    "drafts (events_of (run_loop (scripted outlines verdicts documents) self t r c (int 0) None None (0, 0, 0)))
           = ?n - 0"
    "validations (events_of (run_loop (scripted outlines verdicts documents) self t r c (int 0) None None (0, 0, 0)))
           = ?n - 0"
    "generations (events_of (run_loop (scripted outlines verdicts documents) self t r c (int 0) None None (0, 0, 0)))
           = 0"
    using exhaust_from [where a = 0 and ol = None and w = None and t = t and r = r and c = c
                          and outlines = outlines and verdicts = verdicts
                          and documents = documents and self = self and n = "nat (max_retries self)",
                        OF m]
    by blast
  then show ?thesis
    using sublist_failure_text [of v]
    by (intro exI [where x = v]) (simp add: result_run counts_run failure_text_def)
qed

theorem budget_exhaustion_witness:
  "1 \<le> max_retries (example_agent 2)
   \<and> result_of (run rejecting_port (example_agent 2) ''t'' ''r'' ''c'' (0, 0, 0))
       = Inr (''Failed to create satisfactory outline. Last validation: ''
              @ str_OutlineCriteria example_reject)
   \<and> sublist (py_str_list [''examples''])
         (''Failed to create satisfactory outline. Last validation: ''
          @ str_OutlineCriteria example_reject)
   \<and> drafts (events_of (run rejecting_port (example_agent 2) ''t'' ''r'' ''c'' (0, 0, 0))) = 2
   \<and> validations (events_of (run rejecting_port (example_agent 2) ''t'' ''r'' ''c'' (0, 0, 0))) = 2
   \<and> generations (events_of (run rejecting_port (example_agent 2) ''t'' ''r'' ''c'' (0, 0, 0))) = 0"
proof -
  have pre: "1 \<le> max_retries (example_agent 2)" by (simp add: example_agent_def)
  have rej: "\<forall>i. int i < max_retries (example_agent 2) \<longrightarrow>
      (\<exists>ol. example_outlines i = Inr ol)
      \<and> (\<exists>v. example_rejections i = Inr v \<and> \<not> meets_requirements v)"
    by (simp add: example_outlines_def example_rejections_def example_reject_def)
  have n: "nat (max_retries (example_agent 2)) = 2" by (simp add: example_agent_def)
  from budget_exhaustion [OF pre rej, of example_documents "''t''" "''r''" "''c''"]
  obtain v where last: "example_rejections (nat (max_retries (example_agent 2)) - 1) = Inr v"
    and res: "result_of (run rejecting_port (example_agent 2) ''t'' ''r'' ''c'' (0, 0, 0))
         = Inr (''Failed to create satisfactory outline. Last validation: '' @ str_OutlineCriteria v)"
    and sub: "sublist (py_str_list (missing_elements v))
         (''Failed to create satisfactory outline. Last validation: '' @ str_OutlineCriteria v)"
    and cnt: "drafts (events_of (run rejecting_port (example_agent 2) ''t'' ''r'' ''c'' (0, 0, 0)))
         = nat (max_retries (example_agent 2))"
      "validations (events_of (run rejecting_port (example_agent 2) ''t'' ''r'' ''c'' (0, 0, 0)))
         = nat (max_retries (example_agent 2))"
      "generations (events_of (run rejecting_port (example_agent 2) ''t'' ''r'' ''c'' (0, 0, 0))) = 0"
    unfolding rejecting_port_def by blast
  from last have v: "v = example_reject" by (simp add: example_rejections_def)
  have m: "missing_elements example_reject = [''examples'']" by (simp add: example_reject_def)
  from pre res sub cnt show ?thesis unfolding v n m by blast
qed

text \<open>
  Claim C3. With \<open>max_retries \<ge> 1\<close> (the precondition of \<open>run\<close>), whatever the port
  answers: a run makes at most one document-generation call; every document-generation
  call comes directly after a validation call that returned a verdict with
  \<open>meets_requirements\<close> true; and a run in which no validation returned such a verdict
  (the budget ran out, or a call failed) makes no document-generation call.
\<close>

theorem generation_only_after_acceptance:
  assumes "1 \<le> max_retries self"
  shows "generations (events_of (run p self t r c s)) \<le> 1
    \<and> (\<forall>i < length (calls (events_of (run p self t r c s))).
         is_generation (calls (events_of (run p self t r c s)) ! i) \<longrightarrow>
           0 < i \<and> (\<exists>ol crit v. calls (events_of (run p self t r c s)) ! (i - 1)
                        = (ValidateOutline ol crit, Verdict v) \<and> meets_requirements v))
    \<and> ((\<forall>ol crit v. (ValidateOutline ol crit, Verdict v) \<in> set (calls (events_of (run p self t r c s)))
           \<longrightarrow> \<not> meets_requirements v)
        \<longrightarrow> generations (events_of (run p self t r c s)) = 0)"
proof -
  let ?cs = "calls (events_of (run p self t r c s))"
  have ord: "successively (follows t r c) ?cs" by (rule run_calls_order)
  obtain r0 rest where hd: "?cs = (CreateOutline t r [], r0) # rest"
    using run_calls_head [of p self t r c s] assms by auto
  have once: "generations (events_of (run p self t r c s)) \<le> 1"
    unfolding generations_def using ord follows_generation_last by (rule terminal_once)
  have before: "0 < i \<and> (\<exists>ol crit v. ?cs ! (i - 1) = (ValidateOutline ol crit, Verdict v)
                   \<and> meets_requirements v)"
    if lt: "i < length ?cs" and gen: "is_generation (?cs ! i)" for i
  proof (cases i)
    case 0
    with gen hd show ?thesis by simp
  next
    case (Suc j)
    obtain ol' v' rep where g: "?cs ! Suc j = (GenerateDocument ol' v', rep)"
      using gen Suc by (auto simp: is_generation_iff)
    from ord lt Suc have "follows t r c (?cs ! j) (?cs ! Suc j)"
      by (simp add: successively_nth)
    with g Suc show ?thesis by (auto dest: follows_generation)
  qed
  have none: "generations (events_of (run p self t r c s)) = 0"
    if no: "\<forall>ol crit v. (ValidateOutline ol crit, Verdict v) \<in> set ?cs \<longrightarrow> \<not> meets_requirements v"
  proof -
    have "\<not> is_generation x" if mem: "x \<in> set ?cs" for x
    proof
      assume gx: "is_generation x"
      from mem obtain i where i: "i < length ?cs" "?cs ! i = x"
        by (auto simp: in_set_conv_nth)
      with gx before [of i] obtain ol crit v where
        "0 < i" "?cs ! (i - 1) = (ValidateOutline ol crit, Verdict v)" "meets_requirements v"
        by auto
      moreover from this i have "?cs ! (i - 1) \<in> set ?cs" by (intro nth_mem) simp
      ultimately show False using no by auto
    qed
    then show ?thesis by (simp add: generations_def filter_empty_conv)
  qed
  from once before none show ?thesis by blast
qed

theorem generation_only_after_acceptance_witness:
  "1 \<le> max_retries (example_agent 2)
   \<and> generations (events_of (run example_port (example_agent 2) ''t'' ''r'' ''c'' (0, 0, 0))) \<le> 1"
  using generation_only_after_acceptance
          [of "example_agent 2" example_port "''t''" "''r''" "''c''" "(0, 0, 0)"]
  by (simp add: example_agent_def)

text \<open>
  Claim C4, as amended. In every run, a drafting call that is not the first call (the
  draft of an attempt \<open>i > 0\<close>) comes directly after the validation call of the attempt
  before, which returned a verdict, and the feedback text it is given is the text of
  that verdict's \<open>missing_elements\<close>, a newline, and the text of its \<open>suggestions\<close>,
  where the text of each list is Python's \<open>str\<close> of the list: the \<open>repr\<close> of each
  element (quoted, escaped), comma-separated, in brackets. It is not the elements
  themselves joined with newlines.
\<close>

theorem feedback_from_previous_verdict:
  "\<forall>i. Suc i < length (calls (events_of (run p self t r c s))) \<longrightarrow>
     (\<forall>t' r' fb rep. calls (events_of (run p self t r c s)) ! Suc i = (CreateOutline t' r' fb, rep) \<longrightarrow>
        (\<exists>ol crit v. calls (events_of (run p self t r c s)) ! i = (ValidateOutline ol crit, Verdict v)
           \<and> fb = py_str_list (missing_elements v) @ nl @ py_str_list (suggestions v)))"
proof (intro allI impI)
  fix i t' r' fb rep
  let ?cs = "calls (events_of (run p self t r c s))"
  assume lt: "Suc i < length ?cs" and d: "?cs ! Suc i = (CreateOutline t' r' fb, rep)"
  from lt have "follows t r c (?cs ! i) (?cs ! Suc i)"
    by (rule successively_nth [OF run_calls_order])
  with d show "\<exists>ol crit v. ?cs ! i = (ValidateOutline ol crit, Verdict v)
           \<and> fb = py_str_list (missing_elements v) @ nl @ py_str_list (suggestions v)"
    by (auto dest: follows_draft simp: feedback_text_def)
qed

theorem feedback_from_previous_verdict_witness:
  "calls (events_of (run example_port (example_agent 2) ''t'' ''r'' ''c'' (0, 0, 0))) ! Suc 1
     = (CreateOutline ''t'' ''r'' (''['examples']'' @ nl @ ''['add case study']''), Outline example_outline1)
   \<and> (\<exists>ol crit v.
         calls (events_of (run example_port (example_agent 2) ''t'' ''r'' ''c'' (0, 0, 0))) ! 1
           = (ValidateOutline ol crit, Verdict v)
         \<and> ''['examples']'' @ nl @ ''['add case study']''
             = py_str_list (missing_elements v) @ nl @ py_str_list (suggestions v))"
  using feedback_from_previous_verdict
          [of example_port "example_agent 2" "''t''" "''r''" "''c''" "(0, 0, 0)", THEN spec, of 1]
  by (simp add: example_run_calls)

text \<open>
  The claim as written, with the feedback a newline-separated join of the elements,
  fails on the example of the specification: after the verdict with missing elements
  \<open>examples\<close> and suggestions \<open>add case study\<close>, the second drafting call is given
  \<open>['examples']\<close>, a newline, \<open>['add case study']\<close>, while the join of the elements is
  \<open>examples\<close>, a newline, \<open>add case study\<close>.
\<close>

theorem feedback_join_counterexample:
  "calls (events_of (run example_port (example_agent 2) ''t'' ''r'' ''c'' (0, 0, 0))) ! 1
     = (ValidateOutline example_outline0 ''c'', Verdict example_reject)
   \<and> calls (events_of (run example_port (example_agent 2) ''t'' ''r'' ''c'' (0, 0, 0))) ! 2
     = (CreateOutline ''t'' ''r'' (''['examples']'' @ nl @ ''['add case study']''),
        Outline example_outline1)
   \<and> joined_feedback example_reject = ''examples'' @ nl @ ''add case study''
   \<and> ''['examples']'' @ nl @ ''['add case study']'' \<noteq> joined_feedback example_reject"
  by code_simp

text \<open>
  Claim C5. In every run, the first drafting call is given the empty feedback and its
  instructions are the topic and requirements text alone, with no feedback clause;
  the instructions of every later drafting call are that same text followed by the
  clause \<open>Previous feedback to address:\<close> and the text of the \<open>missing_elements\<close> and
  of the \<open>suggestions\<close> of the verdict that the validation call just before returned.
\<close>

theorem drafting_instructions_feedback_clause:
  "(\<forall>t' r' fb rep.
      calls (events_of (run p self t r c s)) ! 0 = (CreateOutline t' r' fb, rep) \<longrightarrow>
        fb = [] \<and>
        create_outline_prompt t' r' fb =
          ''Create a structured document outline for: '' @ t @ nl @ spaces 20
            @ ''Requirements: '' @ r @ nl @ spaces 20)
   \<and> (\<forall>i t' r' fb rep.
        Suc i < length (calls (events_of (run p self t r c s))) \<and>
        calls (events_of (run p self t r c s)) ! Suc i = (CreateOutline t' r' fb, rep) \<longrightarrow>
          (\<exists>ol crit v.
             calls (events_of (run p self t r c s)) ! i = (ValidateOutline ol crit, Verdict v) \<and>
             create_outline_prompt t' r' fb =
               ''Create a structured document outline for: '' @ t @ nl @ spaces 20
                 @ ''Requirements: '' @ r @ nl @ spaces 20
                 @ nl @ ''Previous feedback to address: ''
                 @ py_str_list (missing_elements v) @ nl @ py_str_list (suggestions v)))"
proof (intro conjI allI impI)
  let ?cs = "calls (events_of (run p self t r c s))"
  obtain r0 rest where hd: "?cs =
      ((if 0 < max_retries self then CreateOutline t r [] else GenerateDocument None None), r0) # rest"
    using run_calls_head [of p self t r c s] by (elim exE)
  {
    fix t' r' fb rep
    assume d: "?cs ! 0 = (CreateOutline t' r' fb, rep)"
    with hd have e: "t' = t \<and> r' = r \<and> fb = []" by (auto split: if_splits)
    then show "fb = []" by simp
    from e show "create_outline_prompt t' r' fb =
          ''Create a structured document outline for: '' @ t @ nl @ spaces 20
            @ ''Requirements: '' @ r @ nl @ spaces 20"
      by (simp add: create_outline_prompt_empty)
  }
  {
    fix i t' r' fb rep
    assume a: "Suc i < length ?cs \<and> ?cs ! Suc i = (CreateOutline t' r' fb, rep)"
    then have "Suc i < length ?cs" by simp
    then have "follows t r c (?cs ! i) (?cs ! Suc i)"
      by (rule successively_nth [OF run_calls_order])
    with a obtain ol crit v where
      "?cs ! i = (ValidateOutline ol crit, Verdict v)" "t' = t" "r' = r" "fb = feedback_text (Some v)"
      by (auto dest: follows_draft)
    then show "\<exists>ol crit v. ?cs ! i = (ValidateOutline ol crit, Verdict v) \<and>
             create_outline_prompt t' r' fb =
               ''Create a structured document outline for: '' @ t @ nl @ spaces 20
                 @ ''Requirements: '' @ r @ nl @ spaces 20
                 @ nl @ ''Previous feedback to address: ''
                 @ py_str_list (missing_elements v) @ nl @ py_str_list (suggestions v)"
      by (simp add: create_outline_prompt_feedback)
  }
qed

theorem drafting_instructions_feedback_clause_witness:
  "create_outline_prompt ''t'' ''r'' [] =
     ''Create a structured document outline for: '' @ ''t'' @ nl @ spaces 20
       @ ''Requirements: '' @ ''r'' @ nl @ spaces 20
   \<and> (\<exists>ol crit v.
         calls (events_of (run example_port (example_agent 2) ''t'' ''r'' ''c'' (0, 0, 0))) ! 1
           = (ValidateOutline ol crit, Verdict v) \<and>
         create_outline_prompt ''t'' ''r'' (''['examples']'' @ nl @ ''['add case study']'') =
           ''Create a structured document outline for: '' @ ''t'' @ nl @ spaces 20
             @ ''Requirements: '' @ ''r'' @ nl @ spaces 20
             @ nl @ ''Previous feedback to address: ''
             @ py_str_list (missing_elements v) @ nl @ py_str_list (suggestions v))"
proof -
  let ?cs = "calls (events_of (run example_port (example_agent 2) ''t'' ''r'' ''c'' (0, 0, 0)))"
  note clause = drafting_instructions_feedback_clause
                  [of example_port "example_agent 2" "''t''" "''r''" "''c''" "(0, 0, 0)"]
  have first: "?cs ! 0 = (CreateOutline ''t'' ''r'' [], Outline example_outline0)"
    by (simp add: example_run_calls)
  have second: "Suc 1 < length ?cs \<and>
      ?cs ! Suc 1 = (CreateOutline ''t'' ''r'' (''['examples']'' @ nl @ ''['add case study']''),
                     Outline example_outline1)"
    by (simp add: example_run_calls)
  from clause [THEN conjunct1, rule_format, OF first]
       clause [THEN conjunct2, rule_format, OF second]
  show ?thesis by simp
qed

text \<open>
  Claim C6, as amended. If a port call of a run fails with an error, whichever call it
  is, the run fails with that same error; no call before it had failed; and nothing
  comes after the failing call but, when the error is an \<open>Exception\<close>, the notice
  \<open>Error in workflow:\<close> with the error's message: no other port call, no second try of
  the failed one. An error that is not an \<open>Exception\<close> (a cancellation, an interrupt)
  passes the handler by and leaves no notice.
\<close>

theorem port_failure_propagates:
  assumes "PortCall cl (Raised e) \<in> set (events_of (run p self t r c s))"
  shows "result_of (run p self t r c s) = Inl e
    \<and> (\<exists>pre. events_of (run p self t r c s) =
                pre @ PortCall cl (Raised e)
                  # (if is_Exception e then [Notice (''Error in workflow: '' @ message e)]
                     else [])
              \<and> quiet pre)"
proof -
  let ?out = "run_loop p self t r c 0 None None s"
  have ew: "ends_well ?out" by (rule ends_well_loop)
  show ?thesis
  proof (cases "result_of ?out")
    case (Inr ok)
    with ew have "quiet (events_of ?out)" by (simp add: ends_well_def)
    moreover from assms Inr have "PortCall cl (Raised e) \<in> set (events_of ?out)"
      by (simp add: events_run)
    ultimately show ?thesis using quiet_not_failed by blast
  next
    case (Inl e')
    with ew obtain pre cl' where
      ev: "events_of ?out = pre @ [PortCall cl' (Raised e')]" and q: "quiet pre"
      by (auto simp: ends_well_def)
    from assms Inl ev have "PortCall cl (Raised e) \<in> set pre \<or> (cl = cl' \<and> e = e')"
      by (auto simp: events_run split: if_splits)
    with q have same: "cl = cl' \<and> e = e'" using quiet_not_failed by blast
    with Inl have "result_of (run p self t r c s) = Inl e" by (simp add: result_run)
    moreover from Inl ev same have "events_of (run p self t r c s) =
        pre @ PortCall cl (Raised e)
          # (if is_Exception e then [Notice (''Error in workflow: '' @ message e)] else [])"
      by (simp add: events_run)
    ultimately show ?thesis using q by blast
  qed
qed

theorem port_failure_propagates_witness:
  "PortCall (ValidateOutline example_outline0 ''c'') (Raised (GenerationError ''timeout''))
     \<in> set (events_of (run failing_port (example_agent 2) ''t'' ''r'' ''c'' (0, 0, 0)))
   \<and> result_of (run failing_port (example_agent 2) ''t'' ''r'' ''c'' (0, 0, 0))
       = Inl (GenerationError ''timeout'')
   \<and> (\<exists>pre. events_of (run failing_port (example_agent 2) ''t'' ''r'' ''c'' (0, 0, 0)) =
               pre @ [PortCall (ValidateOutline example_outline0 ''c'')
                        (Raised (GenerationError ''timeout'')),
                      Notice (''Error in workflow: '' @ ''timeout'')]
             \<and> quiet pre)"
  using port_failure_propagates [OF failing_run_events] failing_run_events by simp

text \<open>
  The claim as written fails on an error that is not an \<open>Exception\<close>: when the first
  validation call is cancelled, the run ends with that failed call as its last event,
  and the notice \<open>Error in workflow: cancelled\<close> is not among its events.
\<close>

theorem port_failure_notice_counterexample:
  "PortCall (ValidateOutline example_outline0 ''c'') (Raised (Interruption ''cancelled''))
     \<in> set (events_of (run interrupted_port (example_agent 2) ''t'' ''r'' ''c'' (0, 0, 0)))
   \<and> result_of (run interrupted_port (example_agent 2) ''t'' ''r'' ''c'' (0, 0, 0))
       = Inl (Interruption ''cancelled'')
   \<and> last (events_of (run interrupted_port (example_agent 2) ''t'' ''r'' ''c'' (0, 0, 0)))
       = PortCall (ValidateOutline example_outline0 ''c'') (Raised (Interruption ''cancelled''))
   \<and> Notice (''Error in workflow: '' @ message (Interruption ''cancelled''))
       \<notin> set (events_of (run interrupted_port (example_agent 2) ''t'' ''r'' ''c'' (0, 0, 0)))"
  by code_simp

text \<open>
  Claim C7. With \<open>max_retries \<ge> 1\<close>: every document-generation call comes directly
  after a validation call that returned an accepting verdict, and is given the outline
  of that validation call and that verdict. Its instructions depend on the verdict
  through \<open>suggestions\<close> only: two verdicts with equal suggestions give the same
  instructions, whatever their \<open>missing_elements\<close> and \<open>meets_requirements\<close>, and every
  suggestion of the verdict occurs in the instructions as \<open>- suggestion\<close>.
\<close>

theorem document_instructions_use_suggestions_only:
  assumes "1 \<le> max_retries self"
  shows "(\<forall>i < length (calls (events_of (run p self t r c s))).
            \<forall>ol' v' rep.
              calls (events_of (run p self t r c s)) ! i = (GenerateDocument ol' v', rep) \<longrightarrow>
                0 < i \<and> (\<exists>ol crit v.
                   calls (events_of (run p self t r c s)) ! (i - 1)
                     = (ValidateOutline ol crit, Verdict v)
                   \<and> meets_requirements v \<and> ol' = Some ol \<and> v' = Some v))
    \<and> (\<forall>ol v w. suggestions v = suggestions w \<longrightarrow>
          generate_document_prompt ol (Some v) = generate_document_prompt ol (Some w))
    \<and> (\<forall>ol v sg. sg \<in> set (suggestions v) \<longrightarrow>
          sublist (''- '' @ sg) (generate_document_prompt ol (Some v)))"
proof (intro conjI allI impI)
  let ?cs = "calls (events_of (run p self t r c s))"
  fix i ol' v' rep
  assume lt: "i < length ?cs" and g: "?cs ! i = (GenerateDocument ol' v', rep)"
  obtain r0 rest where hd: "?cs = (CreateOutline t r [], r0) # rest"
    using run_calls_head [of p self t r c s] assms by auto
  from g hd show "0 < i" by (cases i) auto
  then obtain j where j: "i = Suc j" by (cases i) auto
  with lt have "follows t r c (?cs ! j) (?cs ! Suc j)"
    by (intro successively_nth [OF run_calls_order]) simp
  with g j show "\<exists>ol crit v. ?cs ! (i - 1) = (ValidateOutline ol crit, Verdict v)
                   \<and> meets_requirements v \<and> ol' = Some ol \<and> v' = Some v"
    by (auto dest: follows_generation)
next
  fix ol :: "OutlineSection list option" and v w :: OutlineCriteria
  assume "suggestions v = suggestions w"
  then show "generate_document_prompt ol (Some v) = generate_document_prompt ol (Some w)"
    by (simp add: generate_document_prompt_Some)
next
  fix ol :: "OutlineSection list option" and v :: OutlineCriteria and sg
  assume m: "sg \<in> set (suggestions v)"
  then have ne: "suggestions v \<noteq> []" by auto
  have eq: "generate_document_prompt ol (Some v) =
     (''Write a complete document following this outline:'' @ nl
     @ spaces 18 @ str_outline ol @ nl
     @ spaces 18 @ nl
     @ spaces 18 @ ''Ensure each section addresses all key points listed.''
     @ nl @ ''Please incorporate these suggestions:'' @ nl)
     @ concat (map (\<lambda>suggestion. ''- '' @ suggestion) (suggestions v))"
    using ne by (simp only: generate_document_prompt_Some if_False append_assoc)
  show "sublist (''- '' @ sg) (generate_document_prompt ol (Some v))"
    unfolding eq using m by (rule sublist_item)
qed

theorem document_instructions_use_suggestions_only_witness:
  "1 \<le> max_retries (example_agent 2)
   \<and> (\<exists>ol crit v.
         calls (events_of (run example_port (example_agent 2) ''t'' ''r'' ''c'' (0, 0, 0))) ! (4 - 1)
           = (ValidateOutline ol crit, Verdict v)
         \<and> meets_requirements v \<and> Some example_outline1 = Some ol \<and> Some example_accept = Some v)
   \<and> sublist (''- '' @ ''cite sources'') (generate_document_prompt (Some example_outline1) (Some example_accept))"
proof -
  let ?cs = "calls (events_of (run example_port (example_agent 2) ''t'' ''r'' ''c'' (0, 0, 0)))"
  have pre: "1 \<le> max_retries (example_agent 2)" by (simp add: example_agent_def)
  note th = document_instructions_use_suggestions_only
              [OF pre, of example_port "''t''" "''r''" "''c''" "(0, 0, 0)"]
  have lt: "4 < length ?cs" by (simp add: example_run_calls)
  have g: "?cs ! 4 = (GenerateDocument (Some example_outline1) (Some example_accept),
                     Document example_document)"
    by (simp add: example_run_calls)
  have m: "''cite sources'' \<in> set (suggestions example_accept)"
    by (simp add: example_accept_def)
  from pre th [THEN conjunct1, rule_format, OF lt g]
       th [THEN conjunct2, THEN conjunct2, rule_format, OF m]
  show ?thesis by simp
qed

text \<open>
  Claim C8. In every run, each validation call comes directly after a drafting call of
  the same attempt, and the outline it is given is exactly the outline that drafting
  call returned: no outline of an attempt before enters it.
\<close>

theorem fresh_outline_validated:
  "\<forall>i < length (calls (events_of (run p self t r c s))).
     \<forall>ol crit rep. calls (events_of (run p self t r c s)) ! i = (ValidateOutline ol crit, rep) \<longrightarrow>
       0 < i \<and> (\<exists>fb. calls (events_of (run p self t r c s)) ! (i - 1)
                       = (CreateOutline t r fb, Outline ol))"
proof (intro allI impI)
  fix i ol crit rep
  let ?cs = "calls (events_of (run p self t r c s))"
  assume lt: "i < length ?cs" and d: "?cs ! i = (ValidateOutline ol crit, rep)"
  obtain r0 rest where hd: "?cs =
      ((if 0 < max_retries self then CreateOutline t r [] else GenerateDocument None None), r0) # rest"
    using run_calls_head [of p self t r c s] by (elim exE)
  show "0 < i \<and> (\<exists>fb. ?cs ! (i - 1) = (CreateOutline t r fb, Outline ol))"
  proof (cases i)
    case 0
    with d hd show ?thesis by (auto split: if_splits)
  next
    case (Suc j)
    with lt have f: "follows t r c (?cs ! j) (?cs ! Suc j)"
      using run_calls_order [of t r c p self s] by (simp add: successively_nth)
    with d Suc obtain t' r' fb where x: "?cs ! j = (CreateOutline t' r' fb, Outline ol)"
      by (auto dest: follows_validation)
    have "t' = t \<and> r' = r"
    proof (cases j)
      case 0
      with x hd show ?thesis by (auto split: if_splits)
    next
      case (Suc k)
      with lt \<open>i = Suc j\<close> have "follows t r c (?cs ! k) (?cs ! Suc k)"
        using run_calls_order [of t r c p self s] by (simp add: successively_nth)
      with x Suc show ?thesis by (auto dest: follows_draft)
    qed
    with x Suc show ?thesis by simp
  qed
qed

theorem fresh_outline_validated_witness:
  "calls (events_of (run example_port (example_agent 2) ''t'' ''r'' ''c'' (0, 0, 0))) ! 3
     = (ValidateOutline example_outline1 ''c'', Verdict example_accept)
   \<and> (\<exists>fb. calls (events_of (run example_port (example_agent 2) ''t'' ''r'' ''c'' (0, 0, 0))) ! (3 - 1)
         = (CreateOutline ''t'' ''r'' fb, Outline example_outline1))"
  using fresh_outline_validated
          [of example_port "example_agent 2" "''t''" "''r''" "''c''" "(0, 0, 0)", THEN spec, of 3]
  by (simp add: example_run_calls)

text \<open>
  Claim C9. With \<open>max_retries = 0\<close>, outside the precondition of \<open>run\<close>: the loop body
  never runs, so the run makes no drafting and no validation call; its only port call is
  the document generation with outline \<open>None\<close> and validation \<open>None\<close>, whose instructions
  show the outline as the text \<open>None\<close>; and when that call returns a document, \<open>run\<close>
  returns its content.
\<close>

theorem zero_retries_generates_directly:
  assumes "max_retries self = 0"
  shows "calls (events_of (run p self t r c s)) =
           [(GenerateDocument None None, document_reply (fst (generate_document p None None s)))]
    \<and> drafts (events_of (run p self t r c s)) = 0
    \<and> validations (events_of (run p self t r c s)) = 0
    \<and> generate_document p None None s =
        document_call p
          (''Write a complete document following this outline:'' @ nl
           @ spaces 18 @ ''None'' @ nl
           @ spaces 18 @ nl
           @ spaces 18 @ ''Ensure each section addresses all key points listed.'') s
    \<and> (\<forall>d s'. generate_document p None None s = (Inr d, s') \<longrightarrow>
          run p self t r c s =
            (Inr (content d),
             [Notice (nl @ ''Generating final document...''),
              PortCall (GenerateDocument None None) (Document d)],
             s'))"
proof -
  have loop: "run_loop p self t r c 0 None None s = generate_step p None None s"
    using assms by (simp add: run_loop_done)
  have "run p self t r c s =
            (Inr (content d),
             [Notice (nl @ ''Generating final document...''),
              PortCall (GenerateDocument None None) (Document d)],
             s')"
    if "generate_document p None None s = (Inr d, s')" for d s'
    using that by (simp add: run_def loop generate_step_def document_reply_def)
  moreover have "generate_document p None None s =
        document_call p
          (''Write a complete document following this outline:'' @ nl
           @ spaces 18 @ ''None'' @ nl
           @ spaces 18 @ nl
           @ spaces 18 @ ''Ensure each section addresses all key points listed.'') s"
    by (simp add: generate_document_def generate_document_prompt_def str_outline_def)
  ultimately show ?thesis
    by (simp add: calls_run loop drafts_def validations_def events_generate_step)
qed

theorem zero_retries_generates_directly_witness:
  "max_retries (example_agent 0) = 0
   \<and> run example_port (example_agent 0) ''t'' ''r'' ''c'' (0, 0, 0) =
       (Inr ''The document.'',
        [Notice (nl @ ''Generating final document...''),
         PortCall (GenerateDocument None None) (Document example_document)],
        (0, 0, 1))"
proof -
  have pre: "max_retries (example_agent 0) = 0" by (simp add: example_agent_def)
  have g: "generate_document example_port None None (0, 0, 0) = (Inr example_document, (0, 0, 1))"
    by (simp add: example_port_def scripted_generate_document example_documents_def)
  from zero_retries_generates_directly [OF pre, of example_port "''t''" "''r''" "''c''" "(0, 0, 0)"]
       g pre
  show ?thesis by (simp add: example_document_def)
qed



end
